theory Spec2Isabelle
  imports Main
begin

section \<open>Core types (agentflow/core/types.py)\<close>

datatype AgentRole =
    PROJECT_MANAGER | ARCHITECT | BACKEND_DEVELOPER | FRONTEND_DEVELOPER | QA_ENGINEER
  | DEVOPS_ENGINEER | UI_UX_DESIGNER | DATA_ENGINEER | SECURITY_ENGINEER

datatype TaskPriority = LOW | MEDIUM | HIGH | URGENT | CRITICAL

datatype TaskStatus =
    PENDING | READY | IN_PROGRESS | COMPLETED | FAILED | BLOCKED | CANCELLED

datatype EventType =
    TASK_CREATED | TASK_STARTED | TASK_COMPLETED | TASK_FAILED | TASK_BLOCKED
  | AGENT_STARTED | AGENT_COMPLETED | AGENT_ERROR | AGENT_REQUEST_HELP
  | COLLABORATION_STARTED | COLLABORATION_COMPLETED | COLLABORATION_CONFLICT
  | PROJECT_STARTED | PROJECT_COMPLETED | SYSTEM_ALERT | PERFORMANCE_WARNING


text \<open>The \<open>.value\<close> of an \<open>EventType\<close> member.\<close>

fun event_type_value :: "EventType \<Rightarrow> string" where
  "event_type_value TASK_CREATED = ''task_created''"
| "event_type_value TASK_STARTED = ''task_started''"
| "event_type_value TASK_COMPLETED = ''task_completed''"
| "event_type_value TASK_FAILED = ''task_failed''"
| "event_type_value TASK_BLOCKED = ''task_blocked''"
| "event_type_value AGENT_STARTED = ''agent_started''"
| "event_type_value AGENT_COMPLETED = ''agent_completed''"
| "event_type_value AGENT_ERROR = ''agent_error''"
| "event_type_value AGENT_REQUEST_HELP = ''agent_request_help''"
| "event_type_value COLLABORATION_STARTED = ''collaboration_started''"
| "event_type_value COLLABORATION_COMPLETED = ''collaboration_completed''"
| "event_type_value COLLABORATION_CONFLICT = ''collaboration_conflict''"
| "event_type_value PROJECT_STARTED = ''project_started''"
| "event_type_value PROJECT_COMPLETED = ''project_completed''"
| "event_type_value SYSTEM_ALERT = ''system_alert''"
| "event_type_value PERFORMANCE_WARNING = ''performance_warning''"

text \<open>
  Python dictionaries with string keys are maps. Their values (\<open>Any\<close> in the source) are
  never inspected by the code under study, so they are kept as strings. Points in time
  (\<open>datetime\<close>) are integers on one clock; the reading of \<open>datetime.now()\<close> is passed to
  every operation that takes it.
\<close>

type_synonym pydict = "string \<rightharpoonup> string"
type_synonym datetime = int

section \<open>Work items (agentflow/core/task.py)\<close>

text \<open>
  The dataclass \<open>Task\<close>, field by field. \<open>tech_requirements\<close> holds the \<open>.value\<close>
  strings of its \<open>TechStack\<close> members.
\<close>

record Task =
  task_id :: string
  title :: string
  description :: string
  agent_role :: AgentRole
  assigned_agent_id :: "string option"
  tech_requirements :: "string list"
  priority :: TaskPriority
  status :: TaskStatus
  dependencies :: "string list"
  blocks :: "string list"
  estimated_hours :: int
  created_at :: datetime
  started_at :: "datetime option"
  completed_at :: "datetime option"
  deadline :: "datetime option"
  context_map :: pydict
  result :: pydict
  error_message :: "string option"
  tags :: "string set"
  metadata :: pydict

text \<open>
  What evaluating an expression of the source can raise. The class \<open>Task\<close> defines no
  attribute \<open>_completed_dependencies\<close>, so reading it raises \<open>AttributeError\<close>.
\<close>

datatype error = AttributeError string

text \<open>
  \<open>all(dep in self._completed_dependencies for dep in self.dependencies)\<close>: the generator
  reads the attribute once per dependency, so the first dependency already raises, and an
  empty dependency list gives \<open>True\<close> without reading it.
\<close>

fun all_in_completed_dependencies :: "string list \<Rightarrow> error + bool" where
  "all_in_completed_dependencies [] = Inr True"
| "all_in_completed_dependencies (dep # deps) = Inl (AttributeError ''_completed_dependencies'')"

text \<open>
  The property \<open>is_ready\<close>. Python's \<open>and\<close> evaluates its right operand only when the left
  one is true.
\<close>

definition is_ready :: "Task \<Rightarrow> error + bool" where
  "is_ready t =
     (if status t = PENDING then all_in_completed_dependencies (dependencies t)
      else Inr False)"




text \<open>Truthiness of an optional string: \<open>None\<close> and the empty string are false.\<close>

fun truthy_str :: "string option \<Rightarrow> bool" where
  "truthy_str None = False"
| "truthy_str (Some s) = (s \<noteq> [])"

text \<open>\<open>Task.start\<close>: returns the boolean and the item as the call leaves it.\<close>

definition start :: "Task \<Rightarrow> string option \<Rightarrow> datetime \<Rightarrow> bool \<times> Task" where
  "start t agent_id now =
     (if status t \<noteq> PENDING then (False, t)
      else
        let t1 = t\<lparr>status := IN_PROGRESS, started_at := Some now\<rparr>;
            t2 = (if truthy_str agent_id then t1\<lparr>assigned_agent_id := agent_id\<rparr> else t1)
        in (True, t2))"

text \<open>\<open>Task.complete\<close>: an absent or empty result dictionary is not merged.\<close>

definition complete :: "Task \<Rightarrow> pydict option \<Rightarrow> datetime \<Rightarrow> bool \<times> Task" where
  "complete t res now =
     (if status t \<noteq> IN_PROGRESS then (False, t)
      else
        let t1 = t\<lparr>status := COMPLETED, completed_at := Some now\<rparr>;
            t2 = (case res of
                    None \<Rightarrow> t1
                  | Some r \<Rightarrow> if r = Map.empty then t1 else t1\<lparr>result := result t1 ++ r\<rparr>)
        in (True, t2))"

definition fail :: "Task \<Rightarrow> string \<Rightarrow> datetime \<Rightarrow> bool \<times> Task" where
  "fail t msg now =
     (if status t \<notin> {IN_PROGRESS, READY} then (False, t)
      else (True, t\<lparr>status := FAILED, error_message := Some msg, completed_at := Some now\<rparr>))"

definition block :: "Task \<Rightarrow> string \<Rightarrow> bool \<times> Task" where
  "block t reason =
     (if status t \<in> {COMPLETED, CANCELLED, FAILED} then (False, t)
      else (True, t\<lparr>status := BLOCKED, context_map := (context_map t)(''block_reason'' \<mapsto> reason)\<rparr>))"

text \<open>
  \<open>Task.unblock\<close>: \<open>self.status = READY if self.is_ready else PENDING\<close> reads \<open>is_ready\<close>
  while the status is still \<open>BLOCKED\<close>; an error raised there leaves the call.
\<close>

definition unblock :: "Task \<Rightarrow> error + bool \<times> Task" where
  "unblock t =
     (if status t \<noteq> BLOCKED then Inr (False, t)
      else
        case is_ready t of
          Inl e \<Rightarrow> Inl e
        | Inr b \<Rightarrow>
            Inr (True, t\<lparr>status := (if b then READY else PENDING),
                         context_map := (context_map t)(''block_reason'' := None)\<rparr>))"

definition cancel :: "Task \<Rightarrow> string \<Rightarrow> datetime \<Rightarrow> bool \<times> Task" where
  "cancel t reason now =
     (if status t \<in> {COMPLETED, CANCELLED} then (False, t)
      else
        let t1 = t\<lparr>status := CANCELLED, completed_at := Some now\<rparr>;
            t2 = (if reason \<noteq> [] then t1\<lparr>context_map := (context_map t1)(''cancel_reason'' \<mapsto> reason)\<rparr>
                  else t1)
        in (True, t2))"

definition add_dependency :: "Task \<Rightarrow> string \<Rightarrow> bool \<times> Task" where
  "add_dependency t tid =
     (if tid \<notin> set (dependencies t) \<and> tid \<noteq> task_id t
      then (True, t\<lparr>dependencies := dependencies t @ [tid]\<rparr>)
      else (False, t))"



text \<open>
  \<open>Task(task_id=tid, agent_role=role, dependencies=deps)\<close> constructed at time \<open>now\<close>:
  the defaults of the dataclass, then \<open>__post_init__\<close> (a title from the first eight
  characters of the id, a deadline 24 hours after creation; the clock counts seconds).
\<close>

definition new_task :: "string \<Rightarrow> AgentRole \<Rightarrow> string list \<Rightarrow> datetime \<Rightarrow> Task" where
  "new_task tid role deps now =
     \<lparr>task_id = tid, title = ''Task '' @ take 8 tid, description = [],
      agent_role = role, assigned_agent_id = None, tech_requirements = [],
      priority = MEDIUM, status = PENDING, dependencies = deps, blocks = [],
      estimated_hours = 1, created_at = now, started_at = None, completed_at = None,
      deadline = Some (now + 24 * 3600), context_map = Map.empty, result = Map.empty,
      error_message = None, tags = {}, metadata = Map.empty\<rparr>"

text \<open>
  The six state-transition requests of a work item, with their arguments, and the call of
  one of them on an item.
\<close>

datatype transition =
    Start "string option" | Complete "pydict option" | Fail string
  | Block string | Unblock | Cancel string

fun request :: "transition \<Rightarrow> datetime \<Rightarrow> Task \<Rightarrow> error + bool \<times> Task" where
  "request (Start agent_id) now t = Inr (start t agent_id now)"
| "request (Complete res) now t = Inr (complete t res now)"
| "request (Fail msg) now t = Inr (fail t msg now)"
| "request (Block reason) now t = Inr (block t reason)"
| "request Unblock now t = unblock t"
| "request (Cancel reason) now t = Inr (cancel t reason now)"

text \<open>The states from which the guard at the head of each method lets the call through.\<close>

fun accepted_sources :: "transition \<Rightarrow> TaskStatus set" where
  "accepted_sources (Start agent_id) = {PENDING}"
| "accepted_sources (Complete res) = {IN_PROGRESS}"
| "accepted_sources (Fail msg) = {IN_PROGRESS, READY}"
| "accepted_sources (Block reason) = {PENDING, READY, IN_PROGRESS, BLOCKED}"
| "accepted_sources Unblock = {BLOCKED}"
| "accepted_sources (Cancel reason) = {PENDING, READY, IN_PROGRESS, FAILED, BLOCKED}"

fun is_cancel :: "transition \<Rightarrow> bool" where
  "is_cancel (Cancel reason) = True"
| "is_cancel tr = False"

section \<open>Scheduler (agentflow/core/orchestrator.py)\<close>

text \<open>
  Work items are Python objects: the scheduler's queue, the coordinator's lists and the
  caller all hold references to the same item, and a transition made through one reference
  is seen through the others. A reference is a number and the store maps every reference
  to the item it denotes.
\<close>

type_synonym ref = nat
type_synonym heap = "ref \<Rightarrow> Task"

text \<open>
  \<open>agent_loads\<close> is a \<open>defaultdict(int)\<close>: a missing key reads as 0, and reading it
  stores the key.
\<close>

type_synonym loads = "AgentRole \<rightharpoonup> int"

record TaskScheduler =
  task_queue :: "ref list"
  agent_loads :: loads
  max_concurrent_tasks :: int

definition new_scheduler :: TaskScheduler where
  "new_scheduler = \<lparr>task_queue = [], agent_loads = Map.empty, max_concurrent_tasks = 3\<rparr>"

definition load_of :: "loads \<Rightarrow> AgentRole \<Rightarrow> int" where
  "load_of m role = (case m role of None \<Rightarrow> 0 | Some n \<Rightarrow> n)"


text \<open>
  \<open>add_task\<close>: \<open>task not in self.task_queue\<close> compares with the dataclass equality, field
  by field.
\<close>

definition add_task :: "heap \<Rightarrow> TaskScheduler \<Rightarrow> ref \<Rightarrow> bool \<times> TaskScheduler" where
  "add_task h s r =
     (if \<not> (\<exists>q \<in> set (task_queue s). h q = h r)
      then (True, s\<lparr>task_queue := task_queue s @ [r]\<rparr>)
      else (False, s))"



definition assign_task ::
  "heap \<Rightarrow> TaskScheduler \<Rightarrow> ref \<Rightarrow> string option \<Rightarrow> datetime \<Rightarrow> bool \<times> heap \<times> TaskScheduler"
where
  "assign_task h s r agent_id now =
     (let (ok, t') = start (h r) agent_id now;
          h' = h(r := t')
      in if ok
         then (True, h',
               s\<lparr>agent_loads :=
                    (agent_loads s)(agent_role t' \<mapsto> load_of (agent_loads s) (agent_role t') + 1)\<rparr>)
         else (False, h', s))"

definition complete_task ::
  "heap \<Rightarrow> TaskScheduler \<Rightarrow> ref \<Rightarrow> pydict option \<Rightarrow> datetime \<Rightarrow> bool \<times> heap \<times> TaskScheduler"
where
  "complete_task h s r res now =
     (let (ok, t') = complete (h r) res now;
          h' = h(r := t')
      in if ok
         then (True, h',
               s\<lparr>agent_loads :=
                    (agent_loads s)(agent_role t' \<mapsto>
                       max 0 (load_of (agent_loads s) (agent_role t') - 1))\<rparr>)
         else (False, h', s))"





section \<open>Event bus (agentflow/core/orchestrator.py)\<close>

record AgentEvent =
  event_type :: EventType
  source_agent :: AgentRole
  target_agent :: "AgentRole option"
  data :: pydict
  session_id :: "string option"
  timestamp :: datetime

text \<open>
  A subscribed callback is an opaque callable, named here by a number. \<open>subscribers\<close> is
  a \<open>defaultdict(list)\<close> from patterns to callbacks; its keys are iterated in insertion
  order, so it is an association list with one entry per pattern.
\<close>

type_synonym callback = nat

record EventBus =
  subscribers :: "(string \<times> callback list) list"
  event_history :: "AgentEvent list"
  max_history :: int

definition new_event_bus :: EventBus where
  "new_event_bus = \<lparr>subscribers = [], event_history = [], max_history = 1000\<rparr>"

text \<open>\<open>self.subscribers[event_pattern].append(callback)\<close>\<close>

fun append_callback ::
  "string \<Rightarrow> callback \<Rightarrow> (string \<times> callback list) list \<Rightarrow> (string \<times> callback list) list"
where
  "append_callback p cb [] = [(p, [cb])]"
| "append_callback p cb ((q, cbs) # rest) =
     (if q = p then (q, cbs @ [cb]) # rest else (q, cbs) # append_callback p cb rest)"

definition subscribe :: "EventBus \<Rightarrow> string \<Rightarrow> callback \<Rightarrow> EventBus" where
  "subscribe bus event_pattern cb =
     bus\<lparr>subscribers := append_callback event_pattern cb (subscribers bus)\<rparr>"

text \<open>\<open>self.subscribers[pattern]\<close>: the callbacks of a pattern, none for a missing key.\<close>

definition callbacks_of :: "(string \<times> callback list) list \<Rightarrow> string \<Rightarrow> callback list" where
  "callbacks_of subs p = (case map_of subs p of None \<Rightarrow> [] | Some cbs \<Rightarrow> cbs)"

text \<open>
  \<open>xs[-n:]\<close> as Python slices it: the last \<open>n\<close> items for positive \<open>n\<close> (all of them when
  \<open>n\<close> exceeds the length), the whole list for \<open>n = 0\<close>, and \<open>xs[k:]\<close> for \<open>n = -k < 0\<close>.
\<close>

definition slice_from_minus :: "int \<Rightarrow> 'a list \<Rightarrow> 'a list" where
  "slice_from_minus n xs =
     (if n > 0 then drop (length xs - nat n) xs else drop (nat (- n)) xs)"

definition endswith_star :: "string \<Rightarrow> bool" where
  "endswith_star p = (p \<noteq> [] \<and> last p = CHR ''*'')"

definition startswith :: "string \<Rightarrow> string \<Rightarrow> bool" where
  "startswith s pre = (take (length pre) s = pre)"

text \<open>
  The patterns \<open>publish\<close> collects for an event type, in the order of the source: the
  exact match, then the wildcard, then every key that ends in \<open>*\<close> and whose text before
  the star is a prefix of the event type.
\<close>

definition patterns_to_notify :: "(string \<times> callback list) list \<Rightarrow> string \<Rightarrow> string list" where
  "patterns_to_notify subs ev_type =
     (if ev_type \<in> set (map fst subs) then [ev_type] else [])
     @ (if ''*'' \<in> set (map fst subs) then [''*''] else [])
     @ filter (\<lambda>pattern. endswith_star pattern \<and> startswith ev_type (butlast pattern))
         (map fst subs)"

text \<open>
  What a call of a subscribed callback does, as far as \<open>publish\<close> can tell: it returns,
  it raises an exception that \<open>except Exception\<close> catches, or it raises one that is not an
  \<open>Exception\<close> (a \<open>BaseException\<close> such as \<open>asyncio.CancelledError\<close>), which leaves
  \<open>publish\<close> uncaught.
\<close>

datatype callback_outcome = Returned | RaisedException | RaisedBaseException

datatype escaped = BaseExceptionFrom callback

text \<open>
  The notification loop over the callbacks to call, in order. It gives the calls made,
  the calls logged as failed, and the exception that left the loop, if one did: the
  callbacks after it are not called.
\<close>

fun notify_all ::
  "(callback \<Rightarrow> AgentEvent \<Rightarrow> callback_outcome) \<Rightarrow> AgentEvent \<Rightarrow> (string \<times> callback) list
     \<Rightarrow> (string \<times> callback) list \<times> (string \<times> callback) list \<times> escaped option"
where
  "notify_all behaviour event [] = ([], [], None)"
| "notify_all behaviour event ((pattern, cb) # rest) =
     (case behaviour cb event of
        Returned \<Rightarrow>
          (case notify_all behaviour event rest of
             (calls, logged, esc) \<Rightarrow> ((pattern, cb) # calls, logged, esc))
      | RaisedException \<Rightarrow>
          (case notify_all behaviour event rest of
             (calls, logged, esc) \<Rightarrow> ((pattern, cb) # calls, (pattern, cb) # logged, esc))
      | RaisedBaseException \<Rightarrow> ([(pattern, cb)], [], Some (BaseExceptionFrom cb)))"

text \<open>
  \<open>publish\<close>: the event is appended to the history, the history is cut to its last
  \<open>max_history\<close> entries when it is longer, and the callbacks of every collected pattern
  are called in order. The result is the bus, the calls made (pattern and callback, in
  order), the calls logged as failed, and the exception that left \<open>publish\<close>, if any; the
  history keeps the event also then.
\<close>

definition publish ::
  "(callback \<Rightarrow> AgentEvent \<Rightarrow> callback_outcome) \<Rightarrow> EventBus \<Rightarrow> AgentEvent
     \<Rightarrow> EventBus \<times> (string \<times> callback) list \<times> (string \<times> callback) list \<times> escaped option"
where
  "publish behaviour bus event =
     (let history = event_history bus @ [event];
          history' = (if int (length history) > max_history bus
                      then slice_from_minus (max_history bus) history else history);
          pending = concat (map (\<lambda>pattern. map (Pair pattern) (callbacks_of (subscribers bus) pattern))
                      (patterns_to_notify (subscribers bus) (event_type_value (event_type event))))
      in case notify_all behaviour event pending of
           (calls, logged, esc) \<Rightarrow> (bus\<lparr>event_history := history'\<rparr>, calls, logged, esc))"

text \<open>How often one \<open>publish\<close> calls a callback.\<close>

definition invocations :: "(string \<times> callback) list \<Rightarrow> callback \<Rightarrow> nat" where
  "invocations calls cb = count_list (map snd calls) cb"

section \<open>Sessions (agentflow/core/orchestrator.py)\<close>

text \<open>
  The entries of a \<open>session_info\<close> dictionary that \<open>stop_session\<close> reads or writes, and
  the list of the session's item ids. The project configuration and the results are not
  touched by it.
\<close>

record Session =
  sess_id :: string
  sess_status :: string
  sess_tasks :: "string list"
  sess_start_time :: datetime
  sess_end_time :: "datetime option"

text \<open>The parts of \<open>AgentOrchestrator\<close> that the session operations use.\<close>

record AgentOrchestrator =
  scheduler :: TaskScheduler
  event_bus :: EventBus
  sessions :: "string \<rightharpoonup> Session"
  active_sessions :: "string set"

text \<open>
  \<open>stop_session\<close>, with the store of work items passed through, so that what the call does
  to items can be stated. \<open>now\<close> is the clock read for \<open>end_time\<close>, \<open>now'\<close> the one read
  when the event is built. The message of the alert is given in ASCII. An exception that
  leaves \<open>publish\<close> leaves \<open>stop_session\<close> too, after the session has been marked.
\<close>

definition stop_session ::
  "(callback \<Rightarrow> AgentEvent \<Rightarrow> callback_outcome) \<Rightarrow> heap \<Rightarrow> AgentOrchestrator \<Rightarrow> string
     \<Rightarrow> datetime \<Rightarrow> datetime \<Rightarrow> (escaped + bool) \<times> heap \<times> AgentOrchestrator" where
  "stop_session behaviour h orch sid now now' =
     (case sessions orch sid of
        None \<Rightarrow> (Inr False, h, orch)
      | Some session \<Rightarrow>
          let session' = session\<lparr>sess_status := ''stopped'', sess_end_time := Some now\<rparr>;
              orch1 = orch\<lparr>sessions := (sessions orch)(sid \<mapsto> session'),
                          active_sessions := active_sessions orch - {sid}\<rparr>;
              event = \<lparr>event_type = SYSTEM_ALERT, source_agent = PROJECT_MANAGER,
                       target_agent = None,
                       data = [''message'' \<mapsto> ''session '' @ sid @ '' stopped''],
                       session_id = Some sid, timestamp = now'\<rparr>
          in case publish behaviour (event_bus orch1) event of
               (bus', calls, logged, esc) \<Rightarrow>
                 ((case esc of None \<Rightarrow> Inr True | Some e \<Rightarrow> Inl e),
                  h, orch1\<lparr>event_bus := bus'\<rparr>))"

text \<open>The work items of a session: the queued items whose id the session lists.\<close>

definition session_items :: "heap \<Rightarrow> AgentOrchestrator \<Rightarrow> string \<Rightarrow> ref list" where
  "session_items h orch sid =
     (case sessions orch sid of
        None \<Rightarrow> []
      | Some session \<Rightarrow>
          filter (\<lambda>r. task_id (h r) \<in> set (sess_tasks session)) (task_queue (scheduler orch)))"

section \<open>Properties of work items\<close>

lemma unblock_total:
  "unblock t = Inr (status t = BLOCKED,
     if status t = BLOCKED
     then t\<lparr>status := PENDING, context_map := (context_map t)(''block_reason'' := None)\<rparr>
     else t)"
  by (simp add: unblock_def is_ready_def)

lemma request_rejected:
  "status t \<notin> accepted_sources tr \<Longrightarrow> request tr now t = Inr (False, t)"
  by (cases tr; cases "status t")
     (simp_all add: start_def complete_def fail_def block_def cancel_def unblock_total)

lemma request_accepted:
  "status t \<in> accepted_sources tr \<Longrightarrow> \<exists>t'. request tr now t = Inr (True, t')"
  by (cases tr; cases "status t")
     (simp_all add: start_def complete_def fail_def block_def cancel_def unblock_total Let_def)

text \<open>
  C2. Every state-transition request (start, complete, fail, block, unblock, cancel) on an
  item in any of the seven states returns a boolean and never raises; the boolean is true
  exactly when the item is in a state the method accepts, and when it is not, the call
  returns false and leaves the item as it was.
\<close>

theorem transition_request_never_raises:
  "\<exists>b t'. request tr now t = Inr (b, t')
     \<and> (b \<longleftrightarrow> status t \<in> accepted_sources tr)
     \<and> (status t \<notin> accepted_sources tr \<longrightarrow> t' = t)"
proof (cases "status t \<in> accepted_sources tr")
  case True
  then obtain t' where "request tr now t = Inr (True, t')"
    using request_accepted by blast
  with True show ?thesis by (intro exI[of _ True] exI[of _ t']) simp
next
  case False
  then have "request tr now t = Inr (False, t)"
    by (rule request_rejected)
  with False show ?thesis by (intro exI[of _ False] exI[of _ t]) simp
qed

theorem transition_request_never_raises_witness:
  "\<exists>b t'. request Unblock 5 ((new_task ''t1'' QA_ENGINEER [''t0''] 0)\<lparr>status := BLOCKED\<rparr>)
              = Inr (b, t')
     \<and> b
     \<and> BLOCKED \<in> accepted_sources Unblock"
  using transition_request_never_raises
    [of Unblock 5 "(new_task ''t1'' QA_ENGINEER [''t0''] 0)\<lparr>status := BLOCKED\<rparr>"]
  by simp

text \<open>
  C5, as the code has it. The claim that no transition leaves Completed, Failed or Cancelled
  fails for \<open>cancel\<close> on a Failed item, whose guard lists only Completed and Cancelled.
  The item below was started, then failed, and is then cancelled successfully.
\<close>

theorem cancel_leaves_failed_counterexample:
  "status (snd (fail (snd (start (new_task ''t1'' QA_ENGINEER [] 0) None 1)) ''boom'' 2)) = FAILED
   \<and> fst (cancel (snd (fail (snd (start (new_task ''t1'' QA_ENGINEER [] 0) None 1)) ''boom'' 2))
             [] 3)
   \<and> status (snd (cancel (snd (fail (snd (start (new_task ''t1'' QA_ENGINEER [] 0) None 1))
                              ''boom'' 2)) [] 3)) = CANCELLED"
  by (simp add: new_task_def start_def fail_def cancel_def)

text \<open>
  C5 (amended). No transition leaves Completed or Cancelled: on an item in one of these
  two states every transition method returns false and leaves the item unchanged. On a
  Failed item start, complete, fail, block and unblock return false and leave the item
  unchanged, while cancel returns true and moves the item to Cancelled.
\<close>

theorem terminal_states_closed:
  "(status t \<in> {COMPLETED, CANCELLED} \<longrightarrow> request tr now t = Inr (False, t))
   \<and> (status t = FAILED \<and> \<not> is_cancel tr \<longrightarrow> request tr now t = Inr (False, t))
   \<and> (status t = FAILED \<longrightarrow>
        (\<exists>t'. request (Cancel reason) now t = Inr (True, t') \<and> status t' = CANCELLED))"
proof (intro conjI impI)
  assume "status t \<in> {COMPLETED, CANCELLED}"
  then have "status t \<notin> accepted_sources tr"
    by (cases tr) auto
  then show "request tr now t = Inr (False, t)"
    by (rule request_rejected)
next
  assume "status t = FAILED \<and> \<not> is_cancel tr"
  then have "status t \<notin> accepted_sources tr"
    by (cases tr) auto
  then show "request tr now t = Inr (False, t)"
    by (rule request_rejected)
next
  assume "status t = FAILED"
  then show "\<exists>t'. request (Cancel reason) now t = Inr (True, t') \<and> status t' = CANCELLED"
    by (simp add: cancel_def Let_def)
qed

theorem terminal_states_closed_witness:
  "request (Block ''hold'') 4 ((new_task ''t1'' QA_ENGINEER [] 0)\<lparr>status := COMPLETED\<rparr>)
     = Inr (False, (new_task ''t1'' QA_ENGINEER [] 0)\<lparr>status := COMPLETED\<rparr>)
   \<and> request (Start None) 4 ((new_task ''t2'' QA_ENGINEER [] 0)\<lparr>status := FAILED\<rparr>)
     = Inr (False, (new_task ''t2'' QA_ENGINEER [] 0)\<lparr>status := FAILED\<rparr>)"
  using terminal_states_closed
    [of "(new_task ''t1'' QA_ENGINEER [] 0)\<lparr>status := COMPLETED\<rparr>" "Block ''hold''" 4]
    terminal_states_closed
    [of "(new_task ''t2'' QA_ENGINEER [] 0)\<lparr>status := FAILED\<rparr>" "Start None" 4]
  by simp




section \<open>Properties of the scheduler\<close>

lemma start_rejected: "status t \<noteq> PENDING \<Longrightarrow> start t a now = (False, t)"
  by (simp add: start_def)

lemma start_pending:
  "status t = PENDING \<Longrightarrow> \<exists>t'. start t a now = (True, t') \<and> status t' = IN_PROGRESS
      \<and> agent_role t' = agent_role t"
  by (simp add: start_def Let_def)

lemma complete_rejected: "status t \<noteq> IN_PROGRESS \<Longrightarrow> complete t res now = (False, t)"
  by (simp add: complete_def)

lemma complete_in_progress:
  "status t = IN_PROGRESS \<Longrightarrow> \<exists>t'. complete t res now = (True, t') \<and> status t' = COMPLETED
      \<and> agent_role t' = agent_role t"
  by (cases res) (simp_all add: complete_def Let_def)

lemma assign_task_rejected:
  "status (h r) \<noteq> PENDING \<Longrightarrow> assign_task h s r a now = (False, h, s)"
  by (simp add: assign_task_def start_rejected)

lemma complete_task_rejected:
  "status (h r) \<noteq> IN_PROGRESS \<Longrightarrow> complete_task h s r res now = (False, h, s)"
  by (simp add: complete_task_def complete_rejected)

lemma assign_task_pending:
  assumes "status (h r) = PENDING"
  shows "\<exists>h' s'. assign_task h s r a now = (True, h', s')
           \<and> status (h' r) = IN_PROGRESS
           \<and> (\<forall>q. q \<noteq> r \<longrightarrow> h' q = h q)
           \<and> load_of (agent_loads s') (agent_role (h r))
               = load_of (agent_loads s) (agent_role (h r)) + 1"
proof -
  obtain t' where t': "start (h r) a now = (True, t')" "status t' = IN_PROGRESS"
      "agent_role t' = agent_role (h r)"
    using start_pending [OF assms] by blast
  then show ?thesis
    by (simp add: assign_task_def load_of_def)
qed

lemma complete_task_in_progress:
  assumes "status (h r) = IN_PROGRESS"
  shows "\<exists>h' s'. complete_task h s r res now = (True, h', s')
           \<and> status (h' r) = COMPLETED
           \<and> load_of (agent_loads s') (agent_role (h r))
               = max 0 (load_of (agent_loads s) (agent_role (h r)) - 1)"
proof -
  obtain t' where t': "complete (h r) res now = (True, t')" "status t' = COMPLETED"
      "agent_role t' = agent_role (h r)"
    using complete_in_progress [OF assms] by blast
  then show ?thesis
    by (simp add: complete_task_def load_of_def)
qed

text \<open>
  C1, as the code has it. The claim that \<open>assign_task\<close> returns false on every item that is
  not Ready fails on a Pending item: \<open>Task.start\<close> accepts exactly the Pending state, so a
  freshly created item is dispatched at once, as the unit test
  \<open>test_assign_and_complete_task\<close> expects.
\<close>

theorem assign_task_pending_counterexample:
  "status (new_task ''t1'' PROJECT_MANAGER [] 0) = PENDING
   \<and> fst (assign_task (\<lambda>r. new_task ''t1'' PROJECT_MANAGER [] 0) new_scheduler 0
            (Some ''agent_001'') 1)
   \<and> status (fst (snd (assign_task (\<lambda>r. new_task ''t1'' PROJECT_MANAGER [] 0) new_scheduler 0
            (Some ''agent_001'') 1)) 0) = IN_PROGRESS
   \<and> load_of (agent_loads (snd (snd (assign_task (\<lambda>r. new_task ''t1'' PROJECT_MANAGER [] 0)
            new_scheduler 0 (Some ''agent_001'') 1)))) PROJECT_MANAGER = 1"
  by (simp add: assign_task_def start_def new_task_def new_scheduler_def load_of_def)

text \<open>
  C1 (amended). For every work item in state Pending, \<open>assign_task\<close> returns true, moves
  the item from Pending to InProgress and increments the in-flight counter of the item's
  role; for every item in a state other than Pending and Ready it returns false and leaves
  the item and the counters unchanged.
\<close>

theorem assign_task_dispatch:
  "(status (h r) = PENDING \<longrightarrow>
      (\<exists>h' s'. assign_task h s r agent_id now = (True, h', s')
         \<and> status (h' r) = IN_PROGRESS
         \<and> load_of (agent_loads s') (agent_role (h r))
             = load_of (agent_loads s) (agent_role (h r)) + 1))
   \<and> (status (h r) \<notin> {PENDING, READY} \<longrightarrow> assign_task h s r agent_id now = (False, h, s))"
  using assign_task_pending [of h r s agent_id now] assign_task_rejected [of h r s agent_id now]
  by auto

theorem assign_task_dispatch_witness:
  "assign_task (\<lambda>r. (new_task ''t1'' ARCHITECT [] 0)\<lparr>status := BLOCKED\<rparr>) new_scheduler 0 None 1
     = (False, (\<lambda>r. (new_task ''t1'' ARCHITECT [] 0)\<lparr>status := BLOCKED\<rparr>), new_scheduler)
   \<and> (\<exists>h' s'. assign_task (\<lambda>r. new_task ''t2'' ARCHITECT [] 0) new_scheduler 0 None 1
                 = (True, h', s')
         \<and> status (h' 0) = IN_PROGRESS
         \<and> load_of (agent_loads s') ARCHITECT = 1)"
  using assign_task_dispatch
    [of "\<lambda>r. (new_task ''t1'' ARCHITECT [] 0)\<lparr>status := BLOCKED\<rparr>" 0 new_scheduler None 1]
    assign_task_dispatch [of "\<lambda>r. new_task ''t2'' ARCHITECT [] 0" 0 new_scheduler None 1]
  by (simp add: new_task_def new_scheduler_def load_of_def)

text \<open>
  C7. Reporting an outcome is idempotent: \<open>complete_task\<close> on an item that has reached a
  terminal state (Completed, Failed or Cancelled) returns false and leaves the item and
  the in-flight counters unchanged; and whatever a first call of \<open>complete_task\<close> on an
  item did, a second call on the same item returns false and changes nothing, so the
  counter is not decremented twice.
\<close>

theorem complete_task_idempotent:
  "(status (h r) \<in> {COMPLETED, FAILED, CANCELLED} \<longrightarrow>
      complete_task h s r res now = (False, h, s))
   \<and> (\<forall>b h1 s1. complete_task h s r res now = (b, h1, s1) \<longrightarrow>
        complete_task h1 s1 r res' now' = (False, h1, s1))"
proof (intro conjI impI allI)
  assume "status (h r) \<in> {COMPLETED, FAILED, CANCELLED}"
  then have "status (h r) \<noteq> IN_PROGRESS" by auto
  then show "complete_task h s r res now = (False, h, s)"
    by (rule complete_task_rejected)
next
  fix b h1 s1
  assume first: "complete_task h s r res now = (b, h1, s1)"
  have "status (h1 r) \<noteq> IN_PROGRESS"
  proof (cases "status (h r) = IN_PROGRESS")
    case True
    then show ?thesis
      using complete_task_in_progress [of h r s res now] first by auto
  next
    case False
    then show ?thesis
      using complete_task_rejected [of h r s res now] first by auto
  qed
  then show "complete_task h1 s1 r res' now' = (False, h1, s1)"
    by (rule complete_task_rejected)
qed

theorem complete_task_idempotent_witness:
  "complete_task
     ((\<lambda>r. (new_task ''t1'' QA_ENGINEER [] 0)\<lparr>status := IN_PROGRESS\<rparr>)
        (0 := (new_task ''t1'' QA_ENGINEER [] 0)\<lparr>status := COMPLETED, completed_at := Some 5\<rparr>))
     (new_scheduler\<lparr>agent_loads := [QA_ENGINEER \<mapsto> 0]\<rparr>) 0 None 6
   = (False,
      (\<lambda>r. (new_task ''t1'' QA_ENGINEER [] 0)\<lparr>status := IN_PROGRESS\<rparr>)
        (0 := (new_task ''t1'' QA_ENGINEER [] 0)\<lparr>status := COMPLETED, completed_at := Some 5\<rparr>),
      new_scheduler\<lparr>agent_loads := [QA_ENGINEER \<mapsto> 0]\<rparr>)"
  using complete_task_idempotent
    [of "\<lambda>r. (new_task ''t1'' QA_ENGINEER [] 0)\<lparr>status := IN_PROGRESS\<rparr>" 0
        "new_scheduler\<lparr>agent_loads := [QA_ENGINEER \<mapsto> 1]\<rparr>" None 5 None 6]
  by (simp add: complete_task_def complete_def new_task_def new_scheduler_def load_of_def)

text \<open>
  C6, as the code has it. The claim that enqueueing an item whose dependency list holds
  its own id is rejected fails: \<open>add_task\<close> looks only for an equal item in the queue, so
  the item below is accepted by a fresh scheduler and the queue then holds one item.
\<close>

theorem add_task_self_dependency_counterexample:
  "task_id (new_task ''x'' BACKEND_DEVELOPER [''x''] 0)
     \<in> set (dependencies (new_task ''x'' BACKEND_DEVELOPER [''x''] 0))
   \<and> fst (add_task (\<lambda>r. new_task ''x'' BACKEND_DEVELOPER [''x''] 0) new_scheduler 0)
   \<and> length (task_queue
        (snd (add_task (\<lambda>r. new_task ''x'' BACKEND_DEVELOPER [''x''] 0) new_scheduler 0))) = 1"
  by (simp add: add_task_def new_task_def new_scheduler_def)

text \<open>
  C6 (amended). A self-reference is rejected when it is added through
  \<open>add_dependency\<close>: adding an item's own id returns false and leaves the item unchanged.
  \<open>add_task\<close> does not inspect dependencies: enqueueing any item into a fresh scheduler,
  also one whose dependency list holds its own id, reports success and the queue then
  holds exactly that item.
\<close>

theorem self_dependency_rejected_by_add_dependency:
  "add_dependency t (task_id t) = (False, t)
   \<and> add_task h new_scheduler r = (True, new_scheduler\<lparr>task_queue := [r]\<rparr>)"
  by (simp add: add_dependency_def add_task_def new_scheduler_def)

theorem self_dependency_rejected_by_add_dependency_witness:
  "add_dependency (new_task ''x'' BACKEND_DEVELOPER [] 0) ''x''
     = (False, new_task ''x'' BACKEND_DEVELOPER [] 0)
   \<and> add_task (\<lambda>r. new_task ''x'' BACKEND_DEVELOPER [''x''] 0) new_scheduler 0
     = (True, new_scheduler\<lparr>task_queue := [0]\<rparr>)"
  using self_dependency_rejected_by_add_dependency
    [of "new_task ''x'' BACKEND_DEVELOPER [] 0"
        "\<lambda>r. new_task ''x'' BACKEND_DEVELOPER [''x''] 0" 0]
  by (simp add: new_task_def)

subsection \<open>The in-flight counters and the ceiling\<close>












text \<open>
  \<open>assign_task\<close> itself never looks at the ceiling: a Pending item is dispatched whatever
  the load of its role is. The ceiling is consulted by \<open>get_ready_tasks\<close> only.
\<close>

lemma assign_task_ignores_ceiling:
  assumes "status (h r) = PENDING"
    and "load_of (agent_loads s) (agent_role (h r)) = max_concurrent_tasks s"
  shows "\<exists>h' s'. assign_task h s r agent_id now = (True, h', s')
           \<and> load_of (agent_loads s') (agent_role (h r)) = max_concurrent_tasks s' + 1"
proof -
  obtain t' where t': "start (h r) agent_id now = (True, t')"
      "agent_role t' = agent_role (h r)"
    using start_pending [OF assms(1)] by blast
  then show ?thesis
    using assms(2) by (simp add: assign_task_def load_of_def)
qed




section \<open>Properties of the event bus\<close>

lemma star_matches_prefix_rule: "endswith_star ''*'' \<and> startswith ev (butlast ''*'')"
  by (simp add: endswith_star_def startswith_def)

lemma count_list_filter_keep:
  "P x \<Longrightarrow> count_list (filter P xs) x = count_list xs x"
  by (induction xs) simp_all

lemma count_list_distinct_mem:
  "distinct xs \<Longrightarrow> x \<in> set xs \<Longrightarrow> count_list xs x = 1"
  by (induction xs) (auto simp: count_list_0_iff)

text \<open>
  Whenever the wildcard has subscribers, \<open>publish\<close> collects the pattern \<open>*\<close> twice: once
  by the wildcard test and once more by the prefix loop, since \<open>*\<close> ends in a star and
  the empty text before it is a prefix of every event type.
\<close>

lemma wildcard_collected_twice:
  assumes "''*'' \<in> set (map fst subs)" and "distinct (map fst subs)" and "ev \<noteq> ''*''"
  shows "count_list (patterns_to_notify subs ev) ''*'' = 2"
proof -
  have "count_list (filter (\<lambda>pattern. endswith_star pattern \<and> startswith ev (butlast pattern))
          (map fst subs)) ''*'' = count_list (map fst subs) ''*''"
    by (rule count_list_filter_keep) (rule star_matches_prefix_rule)
  also have "\<dots> = 1"
    using assms(1,2) by (simp add: count_list_distinct_mem)
  finally show ?thesis
    using assms(1,3) by (simp add: patterns_to_notify_def)
qed

text \<open>
  C3. The claim is that \<open>publish\<close> calls every subscribed callback at most once per event,
  and a callback subscribed with the wildcard \<open>*\<close> exactly once. On a bus whose only
  subscription is callback 7 under \<open>*\<close>, publishing a \<open>task_started\<close> event calls
  callback 7 twice.
\<close>

theorem wildcard_callback_called_twice:
  "patterns_to_notify (subscribers (subscribe new_event_bus ''*'' 7))
      (event_type_value TASK_STARTED) = [''*'', ''*'']
   \<and> fst (snd (publish (\<lambda>cb e. Returned) (subscribe new_event_bus ''*'' 7)
        \<lparr>event_type = TASK_STARTED, source_agent = PROJECT_MANAGER, target_agent = None,
         data = Map.empty, session_id = None, timestamp = 0\<rparr>))
      = [(''*'', 7), (''*'', 7)]
   \<and> invocations (fst (snd (publish (\<lambda>cb e. Returned) (subscribe new_event_bus ''*'' 7)
        \<lparr>event_type = TASK_STARTED, source_agent = PROJECT_MANAGER, target_agent = None,
         data = Map.empty, session_id = None, timestamp = 0\<rparr>))) 7 = 2"
  by (simp add: publish_def subscribe_def new_event_bus_def patterns_to_notify_def
      callbacks_of_def invocations_def endswith_star_def startswith_def Let_def)

section \<open>Properties of session cancellation\<close>

lemma notify_all_no_escape:
  "\<forall>cb. behaviour cb event \<noteq> RaisedBaseException \<Longrightarrow>
     snd (snd (notify_all behaviour event pending)) = None"
proof (induction pending)
  case Nil
  then show ?case by simp
next
  case (Cons pc pending)
  obtain pattern cb where pc: "pc = (pattern, cb)" by (cases pc)
  from Cons.prems have "behaviour cb event \<noteq> RaisedBaseException" by simp
  then show ?case
    using Cons.IH [OF Cons.prems]
    by (cases "behaviour cb event") (auto simp: pc split: prod.splits)
qed

lemma publish_no_escape:
  "\<forall>cb. behaviour cb event \<noteq> RaisedBaseException \<Longrightarrow>
     snd (snd (snd (publish behaviour bus event))) = None"
  using notify_all_no_escape [of behaviour event]
  by (simp add: publish_def Let_def split: prod.splits)

text \<open>
  C9, as the code has it. The claim that after a successful \<open>stop_session\<close> every item of
  the session that was Pending or Ready is Cancelled fails: the session below has one
  queued Pending item, \<open>stop_session\<close> returns true, and the item is still Pending.
\<close>

theorem stop_session_cancels_nothing_counterexample:
  "fst (stop_session (\<lambda>cb e. Returned) (\<lambda>r. new_task ''t1'' BACKEND_DEVELOPER [] 0)
        \<lparr>scheduler = new_scheduler\<lparr>task_queue := [0]\<rparr>, event_bus = new_event_bus,
         sessions = [''s1'' \<mapsto> \<lparr>sess_id = ''s1'', sess_status = ''executing'',
                               sess_tasks = [''t1''], sess_start_time = 0,
                               sess_end_time = None\<rparr>],
         active_sessions = {''s1''}\<rparr> ''s1'' 5 5) = Inr True
   \<and> session_items (\<lambda>r. new_task ''t1'' BACKEND_DEVELOPER [] 0)
        \<lparr>scheduler = new_scheduler\<lparr>task_queue := [0]\<rparr>, event_bus = new_event_bus,
         sessions = [''s1'' \<mapsto> \<lparr>sess_id = ''s1'', sess_status = ''executing'',
                               sess_tasks = [''t1''], sess_start_time = 0,
                               sess_end_time = None\<rparr>],
         active_sessions = {''s1''}\<rparr> ''s1'' = [0]
   \<and> status (new_task ''t1'' BACKEND_DEVELOPER [] 0) = PENDING
   \<and> status (fst (snd (stop_session (\<lambda>cb e. Returned) (\<lambda>r. new_task ''t1'' BACKEND_DEVELOPER [] 0)
        \<lparr>scheduler = new_scheduler\<lparr>task_queue := [0]\<rparr>, event_bus = new_event_bus,
         sessions = [''s1'' \<mapsto> \<lparr>sess_id = ''s1'', sess_status = ''executing'',
                               sess_tasks = [''t1''], sess_start_time = 0,
                               sess_end_time = None\<rparr>],
         active_sessions = {''s1''}\<rparr> ''s1'' 5 5)) 0) = PENDING"
  by (simp add: stop_session_def publish_def patterns_to_notify_def new_event_bus_def
      session_items_def new_task_def new_scheduler_def Let_def)

lemma stop_session_existing:
  assumes "sessions orch sid = Some session"
  shows "\<exists>res orch'. stop_session behaviour h orch sid now now' = (res, h, orch')
           \<and> (res = Inr True \<or> (\<exists>e. res = Inl e))
           \<and> (res = Inr True \<longleftrightarrow>
                snd (snd (snd (publish behaviour (event_bus orch)
                  \<lparr>event_type = SYSTEM_ALERT, source_agent = PROJECT_MANAGER,
                   target_agent = None,
                   data = [''message'' \<mapsto> ''session '' @ sid @ '' stopped''],
                   session_id = Some sid, timestamp = now'\<rparr>))) = None)
           \<and> sessions orch' sid
                = Some (session\<lparr>sess_status := ''stopped'', sess_end_time := Some now\<rparr>)
           \<and> sid \<notin> active_sessions orch'
           \<and> scheduler orch' = scheduler orch"
  using assms
  by (auto simp: stop_session_def Let_def split: prod.splits option.splits)

text \<open>
  C9 (amended). When \<open>stop_session\<close> on an existing session id returns true, the session
  is marked stopped with its end time and its id is no longer among the active sessions;
  the call changes no work item and leaves the scheduler as it was, so every item of the
  session that was Pending or Ready still is. It returns true on an existing id whenever no
  subscribed callback raises a \<open>BaseException\<close>. On an unknown id it returns false and
  changes nothing.
\<close>

theorem stop_session_marks_stopped:
  "(sessions orch sid \<noteq> None \<and> (\<forall>cb e. behaviour cb e \<noteq> RaisedBaseException) \<longrightarrow>
      (\<exists>orch'. stop_session behaviour h orch sid now now' = (Inr True, h, orch')
         \<and> (\<exists>session'. sessions orch' sid = Some session'
               \<and> sess_status session' = ''stopped'' \<and> sess_end_time session' = Some now)
         \<and> sid \<notin> active_sessions orch'
         \<and> scheduler orch' = scheduler orch))
   \<and> (\<forall>h' orch'. stop_session behaviour h orch sid now now' = (Inr True, h', orch') \<longrightarrow>
        h' = h \<and> sessions orch sid \<noteq> None
        \<and> (\<exists>session'. sessions orch' sid = Some session'
              \<and> sess_status session' = ''stopped'' \<and> sess_end_time session' = Some now)
        \<and> sid \<notin> active_sessions orch'
        \<and> scheduler orch' = scheduler orch)
   \<and> (sessions orch sid = None \<longrightarrow>
        stop_session behaviour h orch sid now now' = (Inr False, h, orch))"
proof -
  have existing: "\<exists>orch'. stop_session behaviour h orch sid now now' = (Inr True, h, orch')
         \<and> (\<exists>session'. sessions orch' sid = Some session'
               \<and> sess_status session' = ''stopped'' \<and> sess_end_time session' = Some now)
         \<and> sid \<notin> active_sessions orch'
         \<and> scheduler orch' = scheduler orch"
    if a: "sessions orch sid \<noteq> None \<and> (\<forall>cb e. behaviour cb e \<noteq> RaisedBaseException)"
  proof -
    from a obtain session where s: "sessions orch sid = Some session" by auto
    from a have "\<And>bus ev. snd (snd (snd (publish behaviour bus ev))) = None"
      by (simp add: publish_no_escape)
    then show ?thesis
      using stop_session_existing [OF s, of behaviour h now now'] by auto
  qed
  have returned: "h' = h \<and> sessions orch sid \<noteq> None
        \<and> (\<exists>session'. sessions orch' sid = Some session'
              \<and> sess_status session' = ''stopped'' \<and> sess_end_time session' = Some now)
        \<and> sid \<notin> active_sessions orch'
        \<and> scheduler orch' = scheduler orch"
    if r: "stop_session behaviour h orch sid now now' = (Inr True, h', orch')" for h' orch'
  proof (cases "sessions orch sid")
    case None
    with r show ?thesis by (simp add: stop_session_def)
  next
    case (Some session)
    show ?thesis
      using stop_session_existing [OF Some, of behaviour h now now'] r Some by auto
  qed
  have unknown: "stop_session behaviour h orch sid now now' = (Inr False, h, orch)"
    if "sessions orch sid = None"
    using that by (simp add: stop_session_def)
  show ?thesis
    using existing returned unknown by blast
qed

theorem stop_session_marks_stopped_witness:
  "\<exists>orch'. stop_session (\<lambda>cb e. Returned) (\<lambda>r. new_task ''t1'' BACKEND_DEVELOPER [] 0)
        \<lparr>scheduler = new_scheduler\<lparr>task_queue := [0]\<rparr>, event_bus = new_event_bus,
         sessions = [''s1'' \<mapsto> \<lparr>sess_id = ''s1'', sess_status = ''executing'',
                               sess_tasks = [''t1''], sess_start_time = 0,
                               sess_end_time = None\<rparr>],
         active_sessions = {''s1''}\<rparr> ''s1'' 5 5
      = (Inr True, (\<lambda>r. new_task ''t1'' BACKEND_DEVELOPER [] 0), orch')
      \<and> ''s1'' \<notin> active_sessions orch'
      \<and> scheduler orch' = new_scheduler\<lparr>task_queue := [0]\<rparr>"
  using stop_session_marks_stopped
    [of "\<lparr>scheduler = new_scheduler\<lparr>task_queue := [0]\<rparr>, event_bus = new_event_bus,
         sessions = [''s1'' \<mapsto> \<lparr>sess_id = ''s1'', sess_status = ''executing'',
                               sess_tasks = [''t1''], sess_start_time = 0,
                               sess_end_time = None\<rparr>],
         active_sessions = {''s1''}\<rparr>" "''s1''" "\<lambda>cb e. Returned"
        "\<lambda>r. new_task ''t1'' BACKEND_DEVELOPER [] 0" 5 5]
  by auto

end
